theory Spec2Isabelle
  imports Main "HOL-Library.Word"
begin

section \<open>rfxcom.protocol.base: packets and packet handlers\<close>

text \<open>
  A shallow embedding of \<^verbatim>\<open>src/rfxcom/protocol/base.py\<close>. A frame is a Python
  \<^verbatim>\<open>bytearray\<close>: a list of bytes, each an integer in 0..255. Python integers are
  unbounded, so every byte is read as an \<open>int\<close> (\<open>uint\<close>) before arithmetic and
  \<^verbatim>\<open>data[0] + 1\<close> never wraps.
\<close>

type_synonym byte = "8 word"

subsection \<open>Values, dictionaries and exceptions\<close>

text \<open>The Python values that occur in the dictionaries returned by the parsers.\<close>

datatype pyval = VInt int | VStr string | VNone | VBytes "byte list"

text \<open>
  A dictionary is kept as the list of its items in iteration (insertion) order, which
  is the order the error messages of \<^verbatim>\<open>validate_packet\<close> enumerate the keys in.
  \<^verbatim>\<open>PACKET_TYPES\<close> and \<^verbatim>\<open>PACKET_SUBTYPES\<close> map integer codes to names.
\<close>

type_synonym table = "(int \<times> string) list"
type_synonym pydict = "(string \<times> pyval) list"

text \<open>
  The exceptions the code of this module can raise: the four imported from
  \<^verbatim>\<open>rfxcom.exceptions\<close>, each carrying its message, the \<^verbatim>\<open>IndexError\<close> of an
  out-of-range subscript and the \<^verbatim>\<open>NotImplementedError\<close> of the \<^verbatim>\<open>parse\<close> stub.
\<close>

datatype error =
    InvalidPacketLength string
  | MalformedPacket string
  | UnknownPacketType string
  | UnknownPacketSubtype string
  | IndexError
  | NotImplementedError

text \<open>
  Modelled from the spec: the module \<^verbatim>\<open>rfxcom.exceptions\<close> is not part of the
  source at hand, only its import is. The spec's error taxonomy has exactly the four
  kinds \<^verbatim>\<open>InvalidPacketLength\<close>, \<^verbatim>\<open>MalformedPacket\<close>, \<^verbatim>\<open>UnknownPacketType\<close> and
  \<^verbatim>\<open>UnknownPacketSubtype\<close>, and these are what \<^verbatim>\<open>except RFXComException\<close>
  catches; the built-in exceptions are outside that class.
\<close>

fun isinstance_RFXComException :: "error \<Rightarrow> bool" where
  "isinstance_RFXComException (InvalidPacketLength m) = True"
| "isinstance_RFXComException (MalformedPacket m) = True"
| "isinstance_RFXComException (UnknownPacketType m) = True"
| "isinstance_RFXComException (UnknownPacketSubtype m) = True"
| "isinstance_RFXComException IndexError = False"
| "isinstance_RFXComException NotImplementedError = False"

subsection \<open>String formatting\<close>

text \<open>\<^verbatim>\<open>"%s" % n\<close> for an integer \<open>n\<close>: its decimal digits, with a sign when negative.\<close>

definition dec_digit :: "nat \<Rightarrow> char" where
  "dec_digit d = ''0123456789'' ! d"

fun str_nat :: "nat \<Rightarrow> string" where
  "str_nat n = (if n < 10 then [dec_digit n] else str_nat (n div 10) @ [dec_digit (n mod 10)])"

declare str_nat.simps [simp del]

definition str_int :: "int \<Rightarrow> string" where
  "str_int i = (if i < 0 then CHR ''-'' # str_nat (nat (- i)) else str_nat (nat i))"

text \<open>
  \<^verbatim>\<open>"{:02x}".format(n)\<close>: lower-case hexadecimal digits, padded with zeros to two
  characters; the sign of a negative number counts as one of them.
\<close>

definition hex_digit :: "nat \<Rightarrow> char" where
  "hex_digit d = ''0123456789abcdef'' ! d"

fun hex_nat :: "nat \<Rightarrow> string" where
  "hex_nat n = (if n < 16 then [hex_digit n] else hex_nat (n div 16) @ [hex_digit (n mod 16)])"

declare hex_nat.simps [simp del]

definition format_02x :: "int \<Rightarrow> string" where
  "format_02x i =
     (if i < 0 then CHR ''-'' # hex_nat (nat (- i))
      else (let s = hex_nat (nat i) in replicate (2 - length s) CHR ''0'' @ s))"

text \<open>\<^verbatim>\<open>sep.join(parts)\<close>.\<close>

fun join :: "string \<Rightarrow> string list \<Rightarrow> string" where
  "join sep [] = []"
| "join sep [s] = s"
| "join sep (s # t # ss) = s @ sep @ join sep (t # ss)"

text \<open>
  \<^verbatim>\<open>",".join("0x{:02x}".format(pt) for pt in d)\<close>: iterating a dictionary yields
  its keys.
\<close>

definition types_str :: "table \<Rightarrow> string" where
  "types_str d = join '','' (map (\<lambda>pt. ''0x'' @ format_02x pt) (map fst d))"

subsection \<open>Reading bytes of a frame\<close>

text \<open>
  \<^verbatim>\<open>validate_packet\<close> is modelled together with the subscripts it evaluates: a
  computation yields the indices it has read, in order, and its outcome. A subscript
  outside the frame raises \<^verbatim>\<open>IndexError\<close> (only the constant indices 0 to 3 occur,
  so Python's negative indices play no role).
\<close>

type_synonym 'a reading = "nat list \<times> (error + 'a)"

definition getitem :: "byte list \<Rightarrow> nat \<Rightarrow> byte reading" where
  "getitem data i = ([i], if i < length data then Inr (data ! i) else Inl IndexError)"

definition raise :: "error \<Rightarrow> 'a reading" where
  "raise e = ([], Inl e)"

definition return :: "'a \<Rightarrow> 'a reading" where
  "return x = ([], Inr x)"

definition and_then :: "'a reading \<Rightarrow> ('a \<Rightarrow> 'b reading) \<Rightarrow> 'b reading" where
  "and_then m k =
     (case m of
        (t, Inl e) \<Rightarrow> (t, Inl e)
      | (t, Inr x) \<Rightarrow> (case k x of (t', r) \<Rightarrow> (t @ t', r)))"

text \<open>The subscript alone, where the indices read are of no interest.\<close>

definition subscript :: "byte list \<Rightarrow> nat \<Rightarrow> error + byte" where
  "subscript data i = snd (getitem data i)"

subsection \<open>The packet object\<close>

text \<open>
  The attributes of a \<^verbatim>\<open>BasePacket\<close>. \<^verbatim>\<open>__init__\<close> sets the two tables (and a
  logger, which no operation below reads); \<^verbatim>\<open>loaded_at\<close>, \<^verbatim>\<open>raw\<close> and \<^verbatim>\<open>data\<close>
  do not exist until \<^verbatim>\<open>load\<close> assigns them. The clock reading of
  \<^verbatim>\<open>datetime.utcnow()\<close> is an input of \<^verbatim>\<open>load\<close>.
\<close>

type_synonym datetime = nat

record packet =
  PACKET_TYPES :: table
  PACKET_SUBTYPES :: table
  loaded_at :: "datetime option"
  raw :: "byte list option"
  data :: "pydict option"

definition init :: packet where
  "init = \<lparr>PACKET_TYPES = [], PACKET_SUBTYPES = [], loaded_at = None, raw = None, data = None\<rparr>"

subsection \<open>BasePacket\<close>

definition BasePacket_parse :: "packet \<Rightarrow> byte list \<Rightarrow> error + pydict" where
  "BasePacket_parse self frame = Inl NotImplementedError"

text \<open>\<^verbatim>\<open>d.get(k)\<close>: the value stored under \<open>k\<close>, or \<^verbatim>\<open>None\<close>.\<close>

definition dict_get :: "table \<Rightarrow> int \<Rightarrow> pyval" where
  "dict_get d k = (case map_of d k of None \<Rightarrow> VNone | Some name \<Rightarrow> VStr name)"

definition parse_header_part :: "packet \<Rightarrow> byte list \<Rightarrow> error + pydict" where
  "parse_header_part self frame =
     (case subscript frame 0 of Inl e \<Rightarrow> Inl e | Inr b0 \<Rightarrow>
     (case subscript frame 1 of Inl e \<Rightarrow> Inl e | Inr b1 \<Rightarrow>
     (case subscript frame 2 of Inl e \<Rightarrow> Inl e | Inr b2 \<Rightarrow>
     (case subscript frame 3 of Inl e \<Rightarrow> Inl e | Inr b3 \<Rightarrow>
        (let packet_length = uint b0;
             packet_type = uint b1;
             packet_subtype = uint b2;
             sequence_number = uint b3
         in Inr [(''packet_length'', VInt packet_length),
                 (''packet_type'', VInt packet_type),
                 (''packet_type_name'', dict_get (PACKET_TYPES self) packet_type),
                 (''packet_subtype'', VInt packet_subtype),
                 (''packet_subtype_name'', dict_get (PACKET_SUBTYPES self) packet_subtype),
                 (''sequence_number'', VInt sequence_number)])))))"

text \<open>
  \<^verbatim>\<open>load\<close>: the two assignments happen before \<^verbatim>\<open>self.parse\<close> is called, so they
  persist when it raises; \<^verbatim>\<open>self.data\<close> is assigned only when it returns.
  \<^verbatim>\<open>self.parse\<close> is resolved on the object's class: the method found is the
  parameter \<open>parse\<close> (\<open>BasePacket_parse\<close> unless a subclass overrides it), called on
  the object as it is after the two assignments.
\<close>

definition load ::
  "(packet \<Rightarrow> byte list \<Rightarrow> error + pydict) \<Rightarrow> packet \<Rightarrow> datetime \<Rightarrow> byte list
     \<Rightarrow> packet \<times> (error + pydict)" where
  "load parse self utcnow frame =
     (let self1 = self\<lparr>loaded_at := Some utcnow\<rparr>;
          self2 = self1\<lparr>raw := Some frame\<rparr>
      in (case parse self2 frame of
            Inl e \<Rightarrow> (self2, Inl e)
          | Inr d \<Rightarrow> (self2\<lparr>data := Some d\<rparr>, Inr d)))"

subsection \<open>BasePacketHandler\<close>

text \<open>
  \<^verbatim>\<open>validate_packet\<close>, statement by statement. A dictionary is true when it is not
  empty, \<^verbatim>\<open>k not in d\<close> looks at the keys, and \<^verbatim>\<open>and\<close> evaluates its right operand
  only when the left one is true. The literal of the \<^verbatim>\<open>MalformedPacket\<close> message is
  continued over a line break by a backslash inside the quotes, which keeps the twenty
  blanks that indent the second line. The message of \<^verbatim>\<open>UnknownPacketSubtype\<close> says
  ``packet type'' in the source as well.
\<close>

definition validate_packet_reading :: "packet \<Rightarrow> byte list \<Rightarrow> bool reading" where
  "validate_packet_reading self frame =
     and_then (getitem frame 0) (\<lambda>b0.
       let expected_length = uint b0 + 1 in
       if int (length frame) \<noteq> expected_length then
         raise (InvalidPacketLength
           (''Expected packet length to be '' @ str_int expected_length
              @ '' bytes but it was '' @ str_int (int (length frame)) @ '' bytes''))
       else if expected_length < 4 then
         raise (MalformedPacket
           (''Expected packet length to be larger than 4 bytes but ''
              @ replicate 20 CHR '' '' @ ''it was '' @ str_int (int (length frame))
              @ '' bytes''))
       else and_then (getitem frame 1) (\<lambda>b1.
         let packet_type = uint b1 in
         if PACKET_TYPES self \<noteq> [] \<and> packet_type \<notin> set (map fst (PACKET_TYPES self)) then
           raise (UnknownPacketType
             (''Expected packet type to be one of ['' @ types_str (PACKET_TYPES self)
                @ ''] but recieved '' @ str_int packet_type))
         else and_then (getitem frame 2) (\<lambda>b2.
           let sub_type = uint b2 in
           if PACKET_SUBTYPES self \<noteq> [] \<and> sub_type \<notin> set (map fst (PACKET_SUBTYPES self)) then
             raise (UnknownPacketSubtype
               (''Expected packet type to be one of ['' @ types_str (PACKET_SUBTYPES self)
                  @ ''] but recieved '' @ str_int sub_type))
           else return True)))"

text \<open>What \<^verbatim>\<open>validate_packet\<close> returns or raises.\<close>

definition validate_packet :: "packet \<Rightarrow> byte list \<Rightarrow> error + bool" where
  "validate_packet self frame = snd (validate_packet_reading self frame)"

text \<open>
  \<^verbatim>\<open>BasePacketHandler.can_handle\<close>: the \<^verbatim>\<open>except RFXComException\<close> clause turns
  the exceptions of that class into \<^verbatim>\<open>False\<close>; any other exception passes through.
\<close>

definition can_handle :: "packet \<Rightarrow> byte list \<Rightarrow> error + bool" where
  "can_handle self frame =
     (case validate_packet self frame of
        Inr b \<Rightarrow> Inr b
      | Inl e \<Rightarrow> if isinstance_RFXComException e then Inr False else Inl e)"

subsection \<open>Packet\<close>

text \<open>
  \<^verbatim>\<open>Packet\<close> derives from \<^verbatim>\<open>BasePacket\<close>, not from \<^verbatim>\<open>BasePacketHandler\<close>: it
  has a \<^verbatim>\<open>can_handle\<close> and a \<^verbatim>\<open>parse\<close> of its own, and no \<^verbatim>\<open>validate_packet\<close>.
\<close>

definition Packet_can_handle :: "packet \<Rightarrow> byte list \<Rightarrow> error + bool" where
  "Packet_can_handle self frame = Inr True"

definition Packet_parse :: "packet \<Rightarrow> byte list \<Rightarrow> error + pydict" where
  "Packet_parse self frame =
     (case subscript frame 0 of Inl e \<Rightarrow> Inl e | Inr b0 \<Rightarrow>
     (case subscript frame 1 of Inl e \<Rightarrow> Inl e | Inr b1 \<Rightarrow>
     (case subscript frame 2 of Inl e \<Rightarrow> Inl e | Inr b2 \<Rightarrow>
        (let packet_length = uint b0;
             packet_type = uint b1;
             sub_type = uint b2
         in Inr [(''packet_length'', VInt packet_length),
                 (''packet_type'', VInt packet_type),
                 (''packet_subtype'', VInt sub_type),
                 (''packet'', VBytes frame)]))))"

section \<open>Properties\<close>

subsection \<open>Formatting\<close>

lemma str_int_examples:
  "str_int 0 = ''0''" "str_int 7 = ''7''" "str_int 83 = ''83''" "str_int 256 = ''256''"
  "str_int (- 12) = ''-12''"
  by (simp_all add: str_int_def str_nat.simps dec_digit_def)

lemma format_02x_examples:
  "format_02x 0 = ''00''" "format_02x 5 = ''05''" "format_02x 0x52 = ''52''"
  "format_02x 0xFF = ''ff''" "format_02x 0x100 = ''100''" "format_02x (- 1) = ''-1''"
  by (simp_all add: format_02x_def hex_nat.simps hex_digit_def)

lemma types_str_examples:
  "types_str [] = []" "types_str [(0x52, ''TH'')] = ''0x52''"
  "types_str [(0x52, ''TH''), (0x0A, ''X'')] = ''0x52,0x0a''"
  by (simp_all add: types_str_def format_02x_def hex_nat.simps hex_digit_def)

subsection \<open>Subscripts\<close>

lemma getitem_in_range: "i < length frame \<Longrightarrow> getitem frame i = ([i], Inr (frame ! i))"
  by (simp add: getitem_def)

lemma getitem_out_of_range: "length frame \<le> i \<Longrightarrow> getitem frame i = ([i], Inl IndexError)"
  by (simp add: getitem_def)

lemma and_then_getitem:
  "and_then (getitem frame i) k =
     (if i < length frame then (i # fst (k (frame ! i)), snd (k (frame ! i)))
      else ([i], Inl IndexError))"
  by (simp add: and_then_def getitem_def split: prod.splits)

lemma subscript_in_range: "i < length frame \<Longrightarrow> subscript frame i = Inr (frame ! i)"
  by (simp add: subscript_def getitem_def)

lemma subscript_out_of_range: "length frame \<le> i \<Longrightarrow> subscript frame i = Inl IndexError"
  by (simp add: subscript_def getitem_def)

subsection \<open>The cases of \<^verbatim>\<open>validate_packet\<close>\<close>

lemma validate_packet_reading_empty: "validate_packet_reading self [] = ([0], Inl IndexError)"
  by (simp add: validate_packet_reading_def and_then_getitem)

lemma validate_packet_reading_length_mismatch:
  assumes "frame \<noteq> []" and "int (length frame) \<noteq> uint (frame ! 0) + 1"
  shows "validate_packet_reading self frame =
           ([0], Inl (InvalidPacketLength
              (''Expected packet length to be '' @ str_int (uint (frame ! 0) + 1)
                 @ '' bytes but it was '' @ str_int (int (length frame)) @ '' bytes'')))"
  using assms by (simp add: validate_packet_reading_def and_then_getitem raise_def Let_def)

lemma validate_packet_reading_too_short:
  assumes "int (length frame) = uint (frame ! 0) + 1" and "uint (frame ! 0) + 1 < 4"
  shows "validate_packet_reading self frame =
           ([0], Inl (MalformedPacket
              (''Expected packet length to be larger than 4 bytes but ''
                 @ replicate 20 CHR '' '' @ ''it was '' @ str_int (int (length frame))
                 @ '' bytes'')))"
proof -
  have "0 \<le> uint (frame ! 0)" by simp
  with assms(1) have "0 < length frame" by linarith
  with assms show ?thesis
    by (simp add: validate_packet_reading_def and_then_getitem raise_def Let_def)
qed

lemma validate_packet_reading_header:
  assumes "int (length frame) = uint (frame ! 0) + 1" and "4 \<le> length frame"
  shows "validate_packet_reading self frame =
     (if PACKET_TYPES self \<noteq> [] \<and> uint (frame ! 1) \<notin> set (map fst (PACKET_TYPES self)) then
        ([0, 1], Inl (UnknownPacketType
           (''Expected packet type to be one of ['' @ types_str (PACKET_TYPES self)
              @ ''] but recieved '' @ str_int (uint (frame ! 1)))))
      else if PACKET_SUBTYPES self \<noteq> []
                \<and> uint (frame ! 2) \<notin> set (map fst (PACKET_SUBTYPES self)) then
        ([0, 1, 2], Inl (UnknownPacketSubtype
           (''Expected packet type to be one of ['' @ types_str (PACKET_SUBTYPES self)
              @ ''] but recieved '' @ str_int (uint (frame ! 2)))))
      else ([0, 1, 2], Inr True))"
proof -
  from assms have long: "\<not> uint (frame ! 0) + 1 < 4" by linarith
  from assms(2) have in_range: "0 < length frame" "1 < length frame" "2 < length frame"
    by linarith+
  show ?thesis
    unfolding validate_packet_reading_def and_then_getitem Let_def raise_def return_def
    using assms(1) long in_range by simp
qed

lemma validate_packet_MalformedPacketD:
  assumes "validate_packet h g = Inl (MalformedPacket m)"
  shows "int (length g) = uint (g ! 0) + 1 \<and> length g < 4"
proof (cases "g = []")
  case True
  with assms show ?thesis
    by (simp add: validate_packet_def validate_packet_reading_empty)
next
  case nonempty: False
  show ?thesis
  proof (cases "int (length g) = uint (g ! 0) + 1")
    case False
    with nonempty assms show ?thesis
      by (simp add: validate_packet_def validate_packet_reading_length_mismatch)
  next
    case len: True
    show ?thesis
    proof (cases "4 \<le> length g")
      case True
      with len assms show ?thesis
        by (simp add: validate_packet_def validate_packet_reading_header split: if_splits)
    next
      case False
      with len show ?thesis by simp
    qed
  qed
qed

lemma replicate_numeral_20: "replicate 20 c = [c, c, c, c, c, c, c, c, c, c, c, c, c, c, c, c, c, c, c, c]"
  by (simp add: eval_nat_numeral)

lemma validate_packet_empty: "validate_packet h [] = Inl IndexError"
  by (simp add: validate_packet_def validate_packet_reading_empty)

lemma validate_packet_nonempty_outcome:
  assumes "f \<noteq> []"
  shows "validate_packet h f = Inr True
       \<or> (\<exists>m. validate_packet h f = Inl (InvalidPacketLength m))
       \<or> (\<exists>m. validate_packet h f = Inl (MalformedPacket m))
       \<or> (\<exists>m. validate_packet h f = Inl (UnknownPacketType m))
       \<or> (\<exists>m. validate_packet h f = Inl (UnknownPacketSubtype m))"
proof (cases "int (length f) = uint (f ! 0) + 1")
  case False
  with assms show ?thesis
    by (simp add: validate_packet_def validate_packet_reading_length_mismatch)
next
  case len: True
  show ?thesis
  proof (cases "4 \<le> length f")
    case True
    with len show ?thesis
      by (simp add: validate_packet_def validate_packet_reading_header)
  next
    case False
    with len have "uint (f ! 0) + 1 < 4" by linarith
    with len show ?thesis
      by (simp add: validate_packet_def validate_packet_reading_too_short)
  qed
qed

subsection \<open>\<^verbatim>\<open>Packet.parse\<close> and \<^verbatim>\<open>load\<close>\<close>

lemma Packet_parse_long:
  assumes "3 \<le> length f"
  shows "Packet_parse h f =
           Inr [(''packet_length'', VInt (uint (f ! 0))),
                (''packet_type'', VInt (uint (f ! 1))),
                (''packet_subtype'', VInt (uint (f ! 2))),
                (''packet'', VBytes f)]"
proof -
  from assms have "0 < length f" "1 < length f" "2 < length f" by linarith+
  then show ?thesis
    by (simp add: Packet_parse_def subscript_in_range)
qed

lemma Packet_parse_short:
  assumes "length f < 3"
  shows "Packet_parse h f = Inl IndexError"
proof -
  from assms consider "length f \<le> 0" | "0 < length f" "length f \<le> 1"
    | "0 < length f" "1 < length f" "length f \<le> 2"
    by linarith
  then show ?thesis
    by cases (simp_all add: Packet_parse_def subscript_in_range subscript_out_of_range)
qed

lemma load_unfold:
  "load parse h now f =
     (case parse (h\<lparr>loaded_at := Some now, raw := Some f\<rparr>) f of
        Inl e \<Rightarrow> (h\<lparr>loaded_at := Some now, raw := Some f\<rparr>, Inl e)
      | Inr d \<Rightarrow> (h\<lparr>loaded_at := Some now, raw := Some f, data := Some d\<rparr>, Inr d))"
  by (simp add: load_def Let_def)

lemma load_tables_only:
  assumes "\<And>a b. PACKET_TYPES a = PACKET_TYPES b \<Longrightarrow> PACKET_SUBTYPES a = PACKET_SUBTYPES b
             \<Longrightarrow> parse a f = parse b f"
    and "PACKET_TYPES h1 = PACKET_TYPES h2" and "PACKET_SUBTYPES h1 = PACKET_SUBTYPES h2"
  shows "snd (load parse h1 t1 f) = snd (load parse h2 t2 f)"
    and "raw (fst (load parse h1 t1 f)) = raw (fst (load parse h2 t2 f))"
    and "load parse (fst (load parse h1 t1 f)) t2 f =
           ((fst (load parse h1 t1 f))\<lparr>loaded_at := Some t2\<rparr>, snd (load parse h1 t1 f))"
    and "load parse h1 t2 f =
           ((fst (load parse h1 t1 f))\<lparr>loaded_at := Some t2\<rparr>, snd (load parse h1 t1 f))"
proof -
  define r where "r = parse h1 f"
  have same: "parse h f = r"
    if "PACKET_TYPES h = PACKET_TYPES h1" "PACKET_SUBTYPES h = PACKET_SUBTYPES h1" for h
    unfolding r_def using that by (rule assms(1))
  have run1: "load parse h1 t f =
      (case r of
         Inl e \<Rightarrow> (h1\<lparr>loaded_at := Some t, raw := Some f\<rparr>, Inl e)
       | Inr d \<Rightarrow> (h1\<lparr>loaded_at := Some t, raw := Some f, data := Some d\<rparr>, Inr d))" for t
    by (simp add: load_unfold same)
  have run2: "load parse h2 t f =
      (case r of
         Inl e \<Rightarrow> (h2\<lparr>loaded_at := Some t, raw := Some f\<rparr>, Inl e)
       | Inr d \<Rightarrow> (h2\<lparr>loaded_at := Some t, raw := Some f, data := Some d\<rparr>, Inr d))" for t
    by (simp add: load_unfold same assms(2,3))
  show "snd (load parse h1 t1 f) = snd (load parse h2 t2 f)"
    by (simp add: run1 run2 split: sum.splits)
  show "raw (fst (load parse h1 t1 f)) = raw (fst (load parse h2 t2 f))"
    by (simp add: run1 run2 split: sum.splits)
  show "load parse h1 t2 f =
           ((fst (load parse h1 t1 f))\<lparr>loaded_at := Some t2\<rparr>, snd (load parse h1 t1 f))"
    by (simp add: run1 split: sum.splits)
  show "load parse (fst (load parse h1 t1 f)) t2 f =
           ((fst (load parse h1 t1 f))\<lparr>loaded_at := Some t2\<rparr>, snd (load parse h1 t1 f))"
  proof (cases r)
    case (Inl e)
    then show ?thesis
      by (simp add: run1 load_unfold same)
  next
    case (Inr d)
    then show ?thesis
      by (simp add: run1 load_unfold same)
  qed
qed

lemma BasePacket_parse_tables_only: "BasePacket_parse a f = BasePacket_parse b f"
  by (simp add: BasePacket_parse_def)

lemma Packet_parse_tables_only: "Packet_parse a f = Packet_parse b f"
  by (simp add: Packet_parse_def)

lemma parse_header_part_tables_only:
  assumes "PACKET_TYPES a = PACKET_TYPES b" and "PACKET_SUBTYPES a = PACKET_SUBTYPES b"
  shows "parse_header_part a f = parse_header_part b f"
  unfolding parse_header_part_def assms by (rule refl)

lemma load_keeps_tables:
  "PACKET_TYPES (fst (load parse h now f)) = PACKET_TYPES h"
  "PACKET_SUBTYPES (fst (load parse h now f)) = PACKET_SUBTYPES h"
  by (simp_all add: load_unfold split: sum.splits)

section \<open>Frame validation\<close>

text \<open>
  C1. A frame whose length is its first byte plus one and at least 4, whose type byte is
  a key of the type table unless that table is empty, and whose subtype byte is a key of
  the subtype table unless that table is empty, is accepted: \<^verbatim>\<open>validate_packet\<close>
  returns \<^verbatim>\<open>True\<close> and raises nothing. In particular a handler whose two tables
  are empty accepts every type and subtype byte once the two length checks pass.
\<close>

theorem validate_packet_accepts:
  assumes "int (length f) = uint (f ! 0) + 1"
    and "4 \<le> length f"
  shows "((PACKET_TYPES h \<noteq> [] \<longrightarrow> uint (f ! 1) \<in> fst ` set (PACKET_TYPES h))
          \<and> (PACKET_SUBTYPES h \<noteq> [] \<longrightarrow> uint (f ! 2) \<in> fst ` set (PACKET_SUBTYPES h))
          \<longrightarrow> validate_packet h f = Inr True)
       \<and> (PACKET_TYPES h = [] \<and> PACKET_SUBTYPES h = [] \<longrightarrow> validate_packet h f = Inr True)"
  by (auto simp add: validate_packet_def validate_packet_reading_header [OF assms])

text \<open>
  Two instances: a handler with both tables filled on a frame it knows, and a handler
  with empty tables on arbitrary type and subtype bytes.
\<close>

theorem validate_packet_accepts_witness:
  "int (length [0x04, 0x52, 0x02, 0x00, 0x9A :: byte]) = uint ([0x04, 0x52, 0x02, 0x00, 0x9A :: byte] ! 0) + 1
   \<and> 4 \<le> length [0x04, 0x52, 0x02, 0x00, 0x9A :: byte]
   \<and> validate_packet
         (init\<lparr>PACKET_TYPES := [(0x52, ''Temperature and humidity sensors'')],
               PACKET_SUBTYPES := [(0x01, ''THGN122''), (0x02, ''THGR810'')]\<rparr>)
         [0x04, 0x52, 0x02, 0x00, 0x9A] = Inr True
   \<and> PACKET_TYPES init = [] \<and> PACKET_SUBTYPES init = []
   \<and> validate_packet init [0x04, 0xEE, 0xFF, 0x00, 0x9A] = Inr True"
  using validate_packet_accepts
      [of "[0x04, 0x52, 0x02, 0x00, 0x9A]"
          "init\<lparr>PACKET_TYPES := [(0x52, ''Temperature and humidity sensors'')],
                PACKET_SUBTYPES := [(0x01, ''THGN122''), (0x02, ''THGR810'')]\<rparr>"]
    validate_packet_accepts [of "[0x04, 0xEE, 0xFF, 0x00, 0x9A]" init]
  by (simp add: init_def)

text \<open>
  C2. On a non-empty frame whose length differs from its first byte plus one,
  \<^verbatim>\<open>validate_packet\<close> raises \<^verbatim>\<open>InvalidPacketLength\<close>; the message reports the
  expected length, first byte plus one, and the actual length. The check comes first:
  the outcome is the same for every handler, whatever its tables, and byte 0 is the only
  byte read.
\<close>

theorem validate_packet_length_mismatch:
  assumes "f \<noteq> []" and "int (length f) \<noteq> uint (f ! 0) + 1"
  shows "validate_packet h f =
           Inl (InvalidPacketLength
              (''Expected packet length to be '' @ str_int (uint (f ! 0) + 1)
                 @ '' bytes but it was '' @ str_int (int (length f)) @ '' bytes''))
         \<and> fst (validate_packet_reading h f) = [0]"
  by (simp add: validate_packet_def validate_packet_reading_length_mismatch [OF assms])

text \<open>
  An instance: four bytes announcing nine more, with a type byte the handler does not
  know either.
\<close>

theorem validate_packet_length_mismatch_witness:
  "[0x09, 0x11, 0x02, 0x00 :: byte] \<noteq> []
   \<and> int (length [0x09, 0x11, 0x02, 0x00 :: byte]) \<noteq> uint ([0x09, 0x11, 0x02, 0x00 :: byte] ! 0) + 1
   \<and> validate_packet (init\<lparr>PACKET_TYPES := [(0x52, ''Temperature and humidity sensors'')]\<rparr>)
         [0x09, 0x11, 0x02, 0x00] =
       Inl (InvalidPacketLength ''Expected packet length to be 10 bytes but it was 4 bytes'')
   \<and> fst (validate_packet_reading
            (init\<lparr>PACKET_TYPES := [(0x52, ''Temperature and humidity sensors'')]\<rparr>)
            [0x09, 0x11, 0x02, 0x00]) = [0]"
  using validate_packet_length_mismatch
    [of "[0x09, 0x11, 0x02, 0x00]"
        "init\<lparr>PACKET_TYPES := [(0x52, ''Temperature and humidity sensors'')]\<rparr>"]
  by (simp add: str_int_def str_nat.simps dec_digit_def)

text \<open>
  C3. On a frame whose first byte plus one is below 4, \<^verbatim>\<open>validate_packet\<close> raises
  \<^verbatim>\<open>MalformedPacket\<close> when the length check has passed, that is when the frame's
  length equals the first byte plus one, and its actual length is then below 4 as well;
  when the length differs, the outcome is \<^verbatim>\<open>InvalidPacketLength\<close> instead.
  \<^verbatim>\<open>MalformedPacket\<close> is raised on no other path: any frame it is raised for has
  passed the length check and is shorter than 4 bytes.
\<close>

theorem validate_packet_below_header_size:
  assumes "f \<noteq> []" and "uint (f ! 0) + 1 < 4"
  shows "(int (length f) = uint (f ! 0) + 1 \<longrightarrow>
            length f < 4 \<and>
            validate_packet h f =
              Inl (MalformedPacket
                 (''Expected packet length to be larger than 4 bytes but ''
                    @ replicate 20 CHR '' '' @ ''it was '' @ str_int (int (length f))
                    @ '' bytes'')))
       \<and> (int (length f) \<noteq> uint (f ! 0) + 1 \<longrightarrow>
            validate_packet h f =
              Inl (InvalidPacketLength
                 (''Expected packet length to be '' @ str_int (uint (f ! 0) + 1)
                    @ '' bytes but it was '' @ str_int (int (length f)) @ '' bytes'')))
       \<and> (\<forall>g m. validate_packet h g = Inl (MalformedPacket m) \<longrightarrow>
            int (length g) = uint (g ! 0) + 1 \<and> length g < 4)"
proof (intro conjI impI allI)
  assume len: "int (length f) = uint (f ! 0) + 1"
  with assms(2) show "length f < 4" by linarith
  from len assms(2) show "validate_packet h f =
              Inl (MalformedPacket
                 (''Expected packet length to be larger than 4 bytes but ''
                    @ replicate 20 CHR '' '' @ ''it was '' @ str_int (int (length f))
                    @ '' bytes''))"
    by (simp add: validate_packet_def validate_packet_reading_too_short)
next
  assume "int (length f) \<noteq> uint (f ! 0) + 1"
  with assms(1) show "validate_packet h f =
              Inl (InvalidPacketLength
                 (''Expected packet length to be '' @ str_int (uint (f ! 0) + 1)
                    @ '' bytes but it was '' @ str_int (int (length f)) @ '' bytes''))"
    by (simp add: validate_packet_def validate_packet_reading_length_mismatch)
next
  fix g m
  assume "validate_packet h g = Inl (MalformedPacket m)"
  then show "int (length g) = uint (g ! 0) + 1" and "length g < 4"
    by (simp_all add: validate_packet_MalformedPacketD)
qed

text \<open>
  Two instances with first byte 2: three bytes (\<^verbatim>\<open>MalformedPacket\<close>) and four
  bytes (\<^verbatim>\<open>InvalidPacketLength\<close>).
\<close>

theorem validate_packet_below_header_size_witness:
  "[0x02, 0x52, 0x01 :: byte] \<noteq> [] \<and> uint ([0x02, 0x52, 0x01 :: byte] ! 0) + 1 < 4
   \<and> int (length [0x02, 0x52, 0x01 :: byte]) = uint ([0x02, 0x52, 0x01 :: byte] ! 0) + 1
   \<and> validate_packet init [0x02, 0x52, 0x01] =
       Inl (MalformedPacket
         ''Expected packet length to be larger than 4 bytes but                     it was 3 bytes'')
   \<and> [0x02, 0x52, 0x01, 0x00 :: byte] \<noteq> [] \<and> uint ([0x02, 0x52, 0x01, 0x00 :: byte] ! 0) + 1 < 4
   \<and> int (length [0x02, 0x52, 0x01, 0x00 :: byte]) \<noteq> uint ([0x02, 0x52, 0x01, 0x00 :: byte] ! 0) + 1
   \<and> validate_packet init [0x02, 0x52, 0x01, 0x00] =
       Inl (InvalidPacketLength ''Expected packet length to be 3 bytes but it was 4 bytes'')"
  using validate_packet_below_header_size [of "[0x02, 0x52, 0x01]" init]
    validate_packet_below_header_size [of "[0x02, 0x52, 0x01, 0x00]" init]
  by (simp add: str_int_def str_nat.simps dec_digit_def replicate_numeral_20)

text \<open>
  C4. For a handler with a non-empty type table and a frame that passes both length
  checks, a type byte that is not a key of the table makes \<^verbatim>\<open>validate_packet\<close>
  raise \<^verbatim>\<open>UnknownPacketType\<close>, whose message lists the table's keys and the
  offending value, and makes \<^verbatim>\<open>can_handle\<close> return \<^verbatim>\<open>False\<close>. Symmetrically,
  when the type check passes, the subtype table is non-empty and the subtype byte is not
  one of its keys, \<^verbatim>\<open>validate_packet\<close> raises \<^verbatim>\<open>UnknownPacketSubtype\<close>.
\<close>

theorem validate_packet_unknown_type:
  assumes "int (length f) = uint (f ! 0) + 1" and "4 \<le> length f"
  shows "(PACKET_TYPES h \<noteq> [] \<and> uint (f ! 1) \<notin> fst ` set (PACKET_TYPES h) \<longrightarrow>
            validate_packet h f =
              Inl (UnknownPacketType
                 (''Expected packet type to be one of ['' @ types_str (PACKET_TYPES h)
                    @ ''] but recieved '' @ str_int (uint (f ! 1))))
            \<and> can_handle h f = Inr False)
       \<and> ((PACKET_TYPES h = [] \<or> uint (f ! 1) \<in> fst ` set (PACKET_TYPES h))
            \<and> PACKET_SUBTYPES h \<noteq> [] \<and> uint (f ! 2) \<notin> fst ` set (PACKET_SUBTYPES h) \<longrightarrow>
            validate_packet h f =
              Inl (UnknownPacketSubtype
                 (''Expected packet type to be one of ['' @ types_str (PACKET_SUBTYPES h)
                    @ ''] but recieved '' @ str_int (uint (f ! 2))))
            \<and> can_handle h f = Inr False)"
  by (auto simp add: can_handle_def validate_packet_def
        validate_packet_reading_header [OF assms])

text \<open>An unknown type byte \<^verbatim>\<open>0x53\<close>, and an unknown subtype byte \<^verbatim>\<open>0x01\<close>.\<close>

theorem validate_packet_unknown_type_witness:
  "int (length [0x04, 0x53, 0x01, 0x00, 0x9A :: byte]) = uint ([0x04, 0x53, 0x01, 0x00, 0x9A :: byte] ! 0) + 1
   \<and> 4 \<le> length [0x04, 0x53, 0x01, 0x00, 0x9A :: byte]
   \<and> validate_packet (init\<lparr>PACKET_TYPES := [(0x52, ''TH''), (0x10, ''Lighting1'')]\<rparr>)
         [0x04, 0x53, 0x01, 0x00, 0x9A] =
       Inl (UnknownPacketType ''Expected packet type to be one of [0x52,0x10] but recieved 83'')
   \<and> can_handle (init\<lparr>PACKET_TYPES := [(0x52, ''TH''), (0x10, ''Lighting1'')]\<rparr>)
         [0x04, 0x53, 0x01, 0x00, 0x9A] = Inr False
   \<and> validate_packet (init\<lparr>PACKET_TYPES := [(0x52, ''TH''), (0x10, ''Lighting1'')],
                           PACKET_SUBTYPES := [(0x02, ''THGR810'')]\<rparr>)
         [0x04, 0x52, 0x01, 0x00, 0x9A] =
       Inl (UnknownPacketSubtype ''Expected packet type to be one of [0x02] but recieved 1'')"
  using validate_packet_unknown_type
      [of "[0x04, 0x53, 0x01, 0x00, 0x9A]"
          "init\<lparr>PACKET_TYPES := [(0x52, ''TH''), (0x10, ''Lighting1'')]\<rparr>"]
    validate_packet_unknown_type
      [of "[0x04, 0x52, 0x01, 0x00, 0x9A]"
          "init\<lparr>PACKET_TYPES := [(0x52, ''TH''), (0x10, ''Lighting1'')],
                PACKET_SUBTYPES := [(0x02, ''THGR810'')]\<rparr>"]
  by (simp add: init_def str_int_def str_nat.simps dec_digit_def types_str_def format_02x_def
        hex_nat.simps hex_digit_def)

section \<open>The boolean interface\<close>

text \<open>
  C5. \<^verbatim>\<open>can_handle\<close> returns \<^verbatim>\<open>True\<close> exactly when \<^verbatim>\<open>validate_packet\<close> does;
  it returns \<^verbatim>\<open>False\<close> exactly when \<^verbatim>\<open>validate_packet\<close> raises one of
  \<^verbatim>\<open>InvalidPacketLength\<close>, \<^verbatim>\<open>MalformedPacket\<close>, \<^verbatim>\<open>UnknownPacketType\<close> and
  \<^verbatim>\<open>UnknownPacketSubtype\<close>; every other exception of \<^verbatim>\<open>validate_packet\<close> leaves
  \<^verbatim>\<open>can_handle\<close> as it was raised, as the \<^verbatim>\<open>IndexError\<close> of the empty frame does.
\<close>

theorem can_handle_follows_validate_packet:
  "(can_handle h f = Inr True \<longleftrightarrow> validate_packet h f = Inr True)
   \<and> (can_handle h f = Inr False \<longleftrightarrow>
        (\<exists>m. validate_packet h f = Inl (InvalidPacketLength m)
            \<or> validate_packet h f = Inl (MalformedPacket m)
            \<or> validate_packet h f = Inl (UnknownPacketType m)
            \<or> validate_packet h f = Inl (UnknownPacketSubtype m)))
   \<and> (\<forall>e. can_handle h f = Inl e \<longleftrightarrow>
        validate_packet h f = Inl e
        \<and> (\<forall>m. e \<noteq> InvalidPacketLength m \<and> e \<noteq> MalformedPacket m
               \<and> e \<noteq> UnknownPacketType m \<and> e \<noteq> UnknownPacketSubtype m))
   \<and> (f = [] \<longrightarrow> validate_packet h f = Inl IndexError \<and> can_handle h f = Inl IndexError)"
proof (cases "f = []")
  case True
  then have "validate_packet h f = Inl IndexError"
    by (simp add: validate_packet_empty)
  with True show ?thesis
    by (auto simp add: can_handle_def)
next
  case False
  with validate_packet_nonempty_outcome [of f h] show ?thesis
    by (auto simp add: can_handle_def)
qed

text \<open>An accepted frame, a frame of the wrong length and the empty frame.\<close>

theorem can_handle_follows_validate_packet_witness:
  "validate_packet init [0x04, 0x53, 0x01, 0x00, 0x9A] = Inr True
   \<and> can_handle init [0x04, 0x53, 0x01, 0x00, 0x9A] = Inr True
   \<and> validate_packet init [0x04, 0x53, 0x01, 0x00] =
       Inl (InvalidPacketLength ''Expected packet length to be 5 bytes but it was 4 bytes'')
   \<and> can_handle init [0x04, 0x53, 0x01, 0x00] = Inr False
   \<and> validate_packet init [] = Inl IndexError
   \<and> can_handle init [] = Inl IndexError"
proof -
  have v1: "validate_packet init [0x04, 0x53, 0x01, 0x00, 0x9A] = Inr True"
    by (simp add: validate_packet_def validate_packet_reading_header init_def)
  have v2: "validate_packet init [0x04, 0x53, 0x01, 0x00] =
       Inl (InvalidPacketLength ''Expected packet length to be 5 bytes but it was 4 bytes'')"
    by (simp add: validate_packet_def validate_packet_reading_length_mismatch
          str_int_def str_nat.simps dec_digit_def)
  from v1 v2 show ?thesis
    using can_handle_follows_validate_packet [of init "[0x04, 0x53, 0x01, 0x00, 0x9A]"]
      can_handle_follows_validate_packet [of init "[0x04, 0x53, 0x01, 0x00]"]
      can_handle_follows_validate_packet [of init "[]"]
    by simp
qed

section \<open>Subscripts of \<^verbatim>\<open>validate_packet\<close> stay inside the frame\<close>

text \<open>
  C10. On a frame of at least one byte every subscript \<^verbatim>\<open>validate_packet\<close>
  evaluates is inside the frame, so no \<^verbatim>\<open>IndexError\<close> arises. The indices read are
  0 alone, or 0 and 1, or 0, 1 and 2: byte 0 is read in any case, and bytes 1 and 2 only
  once the two length checks have passed, when the frame's length equals the first byte
  plus one and is at least 4.
\<close>

theorem validate_packet_reads_in_bounds:
  assumes "1 \<le> length f"
  shows "(\<forall>i \<in> set (fst (validate_packet_reading h f)). i < length f)
       \<and> validate_packet h f \<noteq> Inl IndexError
       \<and> fst (validate_packet_reading h f) \<in> {[0], [0, 1], [0, 1, 2]}
       \<and> (fst (validate_packet_reading h f) \<noteq> [0] \<longrightarrow>
            int (length f) = uint (f ! 0) + 1 \<and> 4 \<le> length f)"
proof (cases "int (length f) = uint (f ! 0) + 1")
  case False
  moreover from assms have "f \<noteq> []" by auto
  ultimately show ?thesis
    by (simp add: validate_packet_def validate_packet_reading_length_mismatch)
next
  case len: True
  show ?thesis
  proof (cases "4 \<le> length f")
    case True
    with len show ?thesis
      by (auto simp add: validate_packet_def validate_packet_reading_header)
  next
    case False
    with len have "uint (f ! 0) + 1 < 4" by linarith
    moreover from assms have "f \<noteq> []" by auto
    ultimately show ?thesis
      using len by (simp add: validate_packet_def validate_packet_reading_too_short)
  qed
qed

text \<open>A frame on which all three bytes are read, and the one-byte frame.\<close>

theorem validate_packet_reads_in_bounds_witness:
  "1 \<le> length [0x04, 0x52, 0x01, 0x00, 0x9A :: byte]
   \<and> fst (validate_packet_reading init [0x04, 0x52, 0x01, 0x00, 0x9A]) = [0, 1, 2]
   \<and> validate_packet init [0x04, 0x52, 0x01, 0x00, 0x9A] \<noteq> Inl IndexError
   \<and> int (length [0x04, 0x52, 0x01, 0x00, 0x9A :: byte]) = uint ([0x04, 0x52, 0x01, 0x00, 0x9A :: byte] ! 0) + 1
   \<and> 4 \<le> length [0x04, 0x52, 0x01, 0x00, 0x9A :: byte]
   \<and> 1 \<le> length [0x00 :: byte]
   \<and> fst (validate_packet_reading init [0x00]) = [0]
   \<and> validate_packet init [0x00] \<noteq> Inl IndexError"
proof -
  have r1: "fst (validate_packet_reading init [0x04, 0x52, 0x01, 0x00, 0x9A]) = [0, 1, 2]"
    by (simp add: validate_packet_reading_header init_def)
  have r2: "fst (validate_packet_reading init [0x00]) = [0]"
    by (simp add: validate_packet_reading_too_short)
  from r1 r2 show ?thesis
    using validate_packet_reads_in_bounds [of "[0x04, 0x52, 0x01, 0x00, 0x9A]" init]
      validate_packet_reads_in_bounds [of "[0x00]" init]
    by simp
qed

section \<open>The common header\<close>

text \<open>
  C6. On a frame of at least 4 bytes \<^verbatim>\<open>parse_header_part\<close> returns the dictionary
  with \<^verbatim>\<open>packet_length\<close>, \<^verbatim>\<open>packet_type\<close>, \<^verbatim>\<open>packet_subtype\<close> and
  \<^verbatim>\<open>sequence_number\<close> the bytes 0, 1, 2 and 3, \<^verbatim>\<open>packet_type_name\<close> the type
  table's entry for byte 1 and \<^verbatim>\<open>packet_subtype_name\<close> the subtype table's entry for
  byte 2, each \<^verbatim>\<open>None\<close> when the table has no such key; a missing key is no
  failure. On a frame that starts \<^verbatim>\<open>07 20 01 05\<close> the four numbers are 7,
  \<^verbatim>\<open>0x20\<close>, \<^verbatim>\<open>0x01\<close> and \<^verbatim>\<open>0x05\<close>.
\<close>

theorem parse_header_part_fields:
  assumes "4 \<le> length f"
  shows "parse_header_part h f =
           Inr [(''packet_length'', VInt (uint (f ! 0))),
                (''packet_type'', VInt (uint (f ! 1))),
                (''packet_type_name'',
                   case map_of (PACKET_TYPES h) (uint (f ! 1)) of
                     None \<Rightarrow> VNone | Some name \<Rightarrow> VStr name),
                (''packet_subtype'', VInt (uint (f ! 2))),
                (''packet_subtype_name'',
                   case map_of (PACKET_SUBTYPES h) (uint (f ! 2)) of
                     None \<Rightarrow> VNone | Some name \<Rightarrow> VStr name),
                (''sequence_number'', VInt (uint (f ! 3)))]
       \<and> parse_header_part h (0x07 # 0x20 # 0x01 # 0x05 # rest) =
           Inr [(''packet_length'', VInt 7),
                (''packet_type'', VInt 0x20),
                (''packet_type_name'',
                   case map_of (PACKET_TYPES h) 0x20 of
                     None \<Rightarrow> VNone | Some name \<Rightarrow> VStr name),
                (''packet_subtype'', VInt 0x01),
                (''packet_subtype_name'',
                   case map_of (PACKET_SUBTYPES h) 0x01 of
                     None \<Rightarrow> VNone | Some name \<Rightarrow> VStr name),
                (''sequence_number'', VInt 0x05)]"
proof -
  from assms have "0 < length f" "1 < length f" "2 < length f" "3 < length f" by linarith+
  then show ?thesis
    by (simp add: parse_header_part_def subscript_in_range dict_get_def Let_def)
qed

text \<open>A handler that knows the type \<^verbatim>\<open>0x20\<close> and not the subtype \<^verbatim>\<open>0x01\<close>.\<close>

theorem parse_header_part_fields_witness:
  "4 \<le> length [0x07, 0x20, 0x01, 0x05, 0xAA, 0xBB, 0xCC, 0x69 :: byte]
   \<and> parse_header_part
         (init\<lparr>PACKET_TYPES := [(0x20, ''Security1'')],
               PACKET_SUBTYPES := [(0x00, ''X10 security'')]\<rparr>)
         [0x07, 0x20, 0x01, 0x05, 0xAA, 0xBB, 0xCC, 0x69] =
       Inr [(''packet_length'', VInt 7),
            (''packet_type'', VInt 0x20),
            (''packet_type_name'', VStr ''Security1''),
            (''packet_subtype'', VInt 0x01),
            (''packet_subtype_name'', VNone),
            (''sequence_number'', VInt 0x05)]"
  using parse_header_part_fields
    [of "[0x07, 0x20, 0x01, 0x05, 0xAA, 0xBB, 0xCC, 0x69]"
        "init\<lparr>PACKET_TYPES := [(0x20, ''Security1'')],
              PACKET_SUBTYPES := [(0x00, ''X10 security'')]\<rparr>"]
  by (simp add: init_def)

section \<open>The catch-all \<^verbatim>\<open>Packet\<close>\<close>

text \<open>
  C7, as stated, says that \<^verbatim>\<open>Packet.parse\<close> raises on no non-empty frame. It
  reads bytes 0, 1 and 2 without a check, so on a non-empty frame of fewer than three
  bytes the subscript raises \<^verbatim>\<open>IndexError\<close>.
\<close>

theorem Packet_parse_short_frame_raises:
  "[0x01, 0x10 :: byte] \<noteq> [] \<and> Packet_parse init [0x01, 0x10] = Inl IndexError"
  by (simp add: Packet_parse_def subscript_def getitem_def)

text \<open>
  C7, amended. \<^verbatim>\<open>Packet.can_handle\<close> returns \<^verbatim>\<open>True\<close> for every frame, malformed
  or empty ones included. On every frame of at least three bytes \<^verbatim>\<open>Packet.parse\<close>
  raises nothing and returns exactly the four entries \<^verbatim>\<open>packet_length\<close>,
  \<^verbatim>\<open>packet_type\<close>, \<^verbatim>\<open>packet_subtype\<close>, the bytes 0, 1 and 2, and \<^verbatim>\<open>packet\<close>,
  the frame itself; on \<^verbatim>\<open>04 10 02 FF\<close> these are 4, \<^verbatim>\<open>0x10\<close>, \<^verbatim>\<open>0x02\<close> and
  the four bytes.
\<close>

theorem Packet_accepts_and_parses:
  "Packet_can_handle h f = Inr True
   \<and> (3 \<le> length f \<longrightarrow>
        Packet_parse h f =
          Inr [(''packet_length'', VInt (uint (f ! 0))),
               (''packet_type'', VInt (uint (f ! 1))),
               (''packet_subtype'', VInt (uint (f ! 2))),
               (''packet'', VBytes f)])
   \<and> Packet_parse h [0x04, 0x10, 0x02, 0xFF] =
        Inr [(''packet_length'', VInt 4),
             (''packet_type'', VInt 0x10),
             (''packet_subtype'', VInt 0x02),
             (''packet'', VBytes [0x04, 0x10, 0x02, 0xFF])]"
  by (simp add: Packet_can_handle_def Packet_parse_long)

text \<open>
  \<^verbatim>\<open>can_handle\<close> on the empty frame and on a frame of the wrong length, and
  \<^verbatim>\<open>parse\<close> on a frame of exactly three bytes.
\<close>

theorem Packet_accepts_and_parses_witness:
  "Packet_can_handle init [] = Inr True
   \<and> Packet_can_handle init [0x09, 0x11] = Inr True
   \<and> 3 \<le> length [0x02, 0x52, 0x07 :: byte]
   \<and> Packet_parse init [0x02, 0x52, 0x07] =
        Inr [(''packet_length'', VInt 2),
             (''packet_type'', VInt 0x52),
             (''packet_subtype'', VInt 0x07),
             (''packet'', VBytes [0x02, 0x52, 0x07])]"
  using Packet_accepts_and_parses [of init "[]"]
    Packet_accepts_and_parses [of init "[0x09, 0x11]"]
    Packet_accepts_and_parses [of init "[0x02, 0x52, 0x07]"]
  by simp

section \<open>Loading a frame\<close>

text \<open>
  C8. Whenever \<^verbatim>\<open>load\<close> returns, the \<^verbatim>\<open>raw\<close> attribute it has stored is the input
  frame, byte for byte, and the value it returns is what \<^verbatim>\<open>parse\<close> returned on that
  frame, which is also stored as \<^verbatim>\<open>data\<close>. This holds for every \<^verbatim>\<open>parse\<close> method
  that computes its result from the object and the frame. (\<^verbatim>\<open>raw\<close> is bound to the
  very object passed in; equality of the values is what is stated.)
\<close>

theorem load_stores_raw:
  assumes "load parse h now f = (h', Inr d)"
  shows "raw h' = Some f
       \<and> parse (h\<lparr>loaded_at := Some now, raw := Some f\<rparr>) f = Inr d
       \<and> data h' = Some d
       \<and> h' = h\<lparr>loaded_at := Some now, raw := Some f, data := Some d\<rparr>"
  using assms by (auto simp add: load_def Let_def split: sum.splits)

text \<open>A \<^verbatim>\<open>Packet\<close> loading \<^verbatim>\<open>04 10 02 FF\<close>.\<close>

theorem load_stores_raw_witness:
  "load Packet_parse init 1730000000 [0x04, 0x10, 0x02, 0xFF] =
     (\<lparr>PACKET_TYPES = [], PACKET_SUBTYPES = [], loaded_at = Some 1730000000,
       raw = Some [0x04, 0x10, 0x02, 0xFF],
       data = Some [(''packet_length'', VInt 4), (''packet_type'', VInt 0x10),
                    (''packet_subtype'', VInt 0x02),
                    (''packet'', VBytes [0x04, 0x10, 0x02, 0xFF])]\<rparr>,
      Inr [(''packet_length'', VInt 4), (''packet_type'', VInt 0x10),
           (''packet_subtype'', VInt 0x02), (''packet'', VBytes [0x04, 0x10, 0x02, 0xFF])])
   \<and> raw (fst (load Packet_parse init 1730000000 [0x04, 0x10, 0x02, 0xFF]))
       = Some [0x04, 0x10, 0x02, 0xFF]
   \<and> Packet_parse (init\<lparr>loaded_at := Some 1730000000, raw := Some [0x04, 0x10, 0x02, 0xFF]\<rparr>)
         [0x04, 0x10, 0x02, 0xFF]
       = snd (load Packet_parse init 1730000000 [0x04, 0x10, 0x02, 0xFF])"
proof -
  have run: "load Packet_parse init 1730000000 [0x04, 0x10, 0x02, 0xFF] =
     (\<lparr>PACKET_TYPES = [], PACKET_SUBTYPES = [], loaded_at = Some 1730000000,
       raw = Some [0x04, 0x10, 0x02, 0xFF],
       data = Some [(''packet_length'', VInt 4), (''packet_type'', VInt 0x10),
                    (''packet_subtype'', VInt 0x02),
                    (''packet'', VBytes [0x04, 0x10, 0x02, 0xFF])]\<rparr>,
      Inr [(''packet_length'', VInt 4), (''packet_type'', VInt 0x10),
           (''packet_subtype'', VInt 0x02), (''packet'', VBytes [0x04, 0x10, 0x02, 0xFF])])"
    by (simp add: load_def Packet_parse_long init_def)
  from load_stores_raw [OF run] run show ?thesis
    by simp
qed

text \<open>
  C9. Let \<^verbatim>\<open>parse\<close> be any method whose result on the frame is determined by the
  object's two tables, as it is for every \<^verbatim>\<open>parse\<close> of this module and for
  \<^verbatim>\<open>parse_header_part\<close>. Then \<^verbatim>\<open>load\<close> on that frame depends on nothing but the
  frame and the tables: two objects with equal tables, whatever was loaded into them
  before and whatever the clock says, get the same outcome and the same \<^verbatim>\<open>raw\<close>;
  \<^verbatim>\<open>load\<close> leaves the tables as they were; and loading the same frame a second time,
  into the object the first call left behind or into the object as it was before, gives
  the first call's outcome and the first call's final object with nothing but
  \<^verbatim>\<open>loaded_at\<close> changed.
\<close>

theorem load_independent_of_history:
  assumes "\<And>a b. PACKET_TYPES a = PACKET_TYPES b \<Longrightarrow> PACKET_SUBTYPES a = PACKET_SUBTYPES b
             \<Longrightarrow> parse a f = parse b f"
    and "PACKET_TYPES h1 = PACKET_TYPES h2" and "PACKET_SUBTYPES h1 = PACKET_SUBTYPES h2"
  shows "snd (load parse h1 t1 f) = snd (load parse h2 t2 f)
       \<and> snd (load parse h1 t1 f) = parse h1 f
       \<and> raw (fst (load parse h1 t1 f)) = raw (fst (load parse h2 t2 f))
       \<and> PACKET_TYPES (fst (load parse h1 t1 f)) = PACKET_TYPES h1
       \<and> PACKET_SUBTYPES (fst (load parse h1 t1 f)) = PACKET_SUBTYPES h1
       \<and> load parse (fst (load parse h1 t1 f)) t2 f =
           ((fst (load parse h1 t1 f))\<lparr>loaded_at := Some t2\<rparr>, snd (load parse h1 t1 f))
       \<and> load parse h1 t2 f =
           ((fst (load parse h1 t1 f))\<lparr>loaded_at := Some t2\<rparr>, snd (load parse h1 t1 f))"
proof -
  have "parse (h1\<lparr>loaded_at := Some t1, raw := Some f\<rparr>) f = parse h1 f"
    by (rule assms(1)) simp_all
  then have result: "snd (load parse h1 t1 f) = parse h1 f"
    by (simp add: load_unfold split: sum.splits)
  from load_tables_only [of parse f, OF assms] load_keeps_tables [of parse h1 t1 f] result
  show ?thesis
    by blast
qed

text \<open>
  A handler with both tables filled and \<^verbatim>\<open>parse_header_part\<close> as its \<^verbatim>\<open>parse\<close>,
  which reads both tables: fresh, and after it has loaded another frame, at different
  times. The names in the outcome come from the tables; a fresh object with empty
  tables gets another outcome on the same frame.
\<close>

theorem load_independent_of_history_witness:
  "PACKET_TYPES (init\<lparr>PACKET_TYPES := [(0x20, ''Security1'')],
                       PACKET_SUBTYPES := [(0x01, ''X10 security motion'')]\<rparr>) =
     PACKET_TYPES (fst (load parse_header_part
        (init\<lparr>PACKET_TYPES := [(0x20, ''Security1'')],
              PACKET_SUBTYPES := [(0x01, ''X10 security motion'')]\<rparr>)
        5 [0x04, 0x20, 0x07, 0x01, 0x00]))
   \<and> data (fst (load parse_header_part
        (init\<lparr>PACKET_TYPES := [(0x20, ''Security1'')],
              PACKET_SUBTYPES := [(0x01, ''X10 security motion'')]\<rparr>)
        5 [0x04, 0x20, 0x07, 0x01, 0x00])) =
       Some [(''packet_length'', VInt 4), (''packet_type'', VInt 0x20),
             (''packet_type_name'', VStr ''Security1''), (''packet_subtype'', VInt 0x07),
             (''packet_subtype_name'', VNone), (''sequence_number'', VInt 0x01)]
   \<and> snd (load parse_header_part
        (init\<lparr>PACKET_TYPES := [(0x20, ''Security1'')],
              PACKET_SUBTYPES := [(0x01, ''X10 security motion'')]\<rparr>)
        10 [0x07, 0x20, 0x01, 0x05, 0xAA, 0xBB, 0xCC, 0x69]) =
       Inr [(''packet_length'', VInt 7), (''packet_type'', VInt 0x20),
            (''packet_type_name'', VStr ''Security1''), (''packet_subtype'', VInt 0x01),
            (''packet_subtype_name'', VStr ''X10 security motion''),
            (''sequence_number'', VInt 0x05)]
   \<and> snd (load parse_header_part
        (fst (load parse_header_part
           (init\<lparr>PACKET_TYPES := [(0x20, ''Security1'')],
                 PACKET_SUBTYPES := [(0x01, ''X10 security motion'')]\<rparr>)
           5 [0x04, 0x20, 0x07, 0x01, 0x00]))
        20 [0x07, 0x20, 0x01, 0x05, 0xAA, 0xBB, 0xCC, 0x69]) =
       Inr [(''packet_length'', VInt 7), (''packet_type'', VInt 0x20),
            (''packet_type_name'', VStr ''Security1''), (''packet_subtype'', VInt 0x01),
            (''packet_subtype_name'', VStr ''X10 security motion''),
            (''sequence_number'', VInt 0x05)]
   \<and> load parse_header_part
        (fst (load parse_header_part
           (init\<lparr>PACKET_TYPES := [(0x20, ''Security1'')],
                 PACKET_SUBTYPES := [(0x01, ''X10 security motion'')]\<rparr>)
           10 [0x07, 0x20, 0x01, 0x05, 0xAA, 0xBB, 0xCC, 0x69]))
        20 [0x07, 0x20, 0x01, 0x05, 0xAA, 0xBB, 0xCC, 0x69] =
       (\<lparr>PACKET_TYPES = [(0x20, ''Security1'')],
         PACKET_SUBTYPES = [(0x01, ''X10 security motion'')],
         loaded_at = Some 20,
         raw = Some [0x07, 0x20, 0x01, 0x05, 0xAA, 0xBB, 0xCC, 0x69],
         data = Some [(''packet_length'', VInt 7), (''packet_type'', VInt 0x20),
                      (''packet_type_name'', VStr ''Security1''),
                      (''packet_subtype'', VInt 0x01),
                      (''packet_subtype_name'', VStr ''X10 security motion''),
                      (''sequence_number'', VInt 0x05)]\<rparr>,
        Inr [(''packet_length'', VInt 7), (''packet_type'', VInt 0x20),
             (''packet_type_name'', VStr ''Security1''), (''packet_subtype'', VInt 0x01),
             (''packet_subtype_name'', VStr ''X10 security motion''),
             (''sequence_number'', VInt 0x05)])
   \<and> snd (load parse_header_part init 10 [0x07, 0x20, 0x01, 0x05, 0xAA, 0xBB, 0xCC, 0x69]) \<noteq>
       snd (load parse_header_part
          (init\<lparr>PACKET_TYPES := [(0x20, ''Security1'')],
                PACKET_SUBTYPES := [(0x01, ''X10 security motion'')]\<rparr>)
          10 [0x07, 0x20, 0x01, 0x05, 0xAA, 0xBB, 0xCC, 0x69])"
proof -
  define H where "H = init\<lparr>PACKET_TYPES := [(0x20, ''Security1'')],
                            PACKET_SUBTYPES := [(0x01, ''X10 security motion'')]\<rparr>"
  define F :: "byte list" where "F = [0x07, 0x20, 0x01, 0x05, 0xAA, 0xBB, 0xCC, 0x69]"
  define G :: "byte list" where "G = [0x04, 0x20, 0x07, 0x01, 0x00]"
  define R where "R = [(''packet_length'', VInt 7), (''packet_type'', VInt 0x20),
            (''packet_type_name'', VStr ''Security1''), (''packet_subtype'', VInt 0x01),
            (''packet_subtype_name'', VStr ''X10 security motion''),
            (''sequence_number'', VInt 0x05)]"
  have H_fields: "PACKET_TYPES H = [(0x20, ''Security1'')]"
    "PACKET_SUBTYPES H = [(0x01, ''X10 security motion'')]"
    "H = \<lparr>PACKET_TYPES = [(0x20, ''Security1'')],
          PACKET_SUBTYPES = [(0x01, ''X10 security motion'')],
          loaded_at = None, raw = None, data = None\<rparr>"
    by (simp_all add: H_def init_def)
  have parse_F: "parse_header_part H F = Inr R"
    by (simp add: parse_header_part_def subscript_in_range dict_get_def Let_def
          H_fields(1,2) F_def R_def)
  have parse_G: "parse_header_part H G =
      Inr [(''packet_length'', VInt 4), (''packet_type'', VInt 0x20),
           (''packet_type_name'', VStr ''Security1''), (''packet_subtype'', VInt 0x07),
           (''packet_subtype_name'', VNone), (''sequence_number'', VInt 0x01)]"
    by (simp add: parse_header_part_def subscript_in_range dict_get_def Let_def
          H_fields(1,2) G_def)
  have parse_init: "parse_header_part init F =
      Inr [(''packet_length'', VInt 7), (''packet_type'', VInt 0x20),
           (''packet_type_name'', VNone), (''packet_subtype'', VInt 0x01),
           (''packet_subtype_name'', VNone), (''sequence_number'', VInt 0x05)]"
    by (simp add: parse_header_part_def subscript_in_range dict_get_def Let_def
          init_def F_def)
  have tables: "PACKET_TYPES H = PACKET_TYPES (fst (load parse_header_part H 5 G))"
    "PACKET_SUBTYPES H = PACKET_SUBTYPES (fst (load parse_header_part H 5 G))"
    by (simp_all add: load_keeps_tables)
  have prior: "parse_header_part (H\<lparr>loaded_at := Some 5, raw := Some G\<rparr>) G
                 = parse_header_part H G"
    by (rule parse_header_part_tables_only) simp_all
  have prior_data: "data (fst (load parse_header_part H 5 G)) =
      Some [(''packet_length'', VInt 4), (''packet_type'', VInt 0x20),
            (''packet_type_name'', VStr ''Security1''), (''packet_subtype'', VInt 0x07),
            (''packet_subtype_name'', VNone), (''sequence_number'', VInt 0x01)]"
    by (simp add: load_unfold prior parse_G)
  have empty_tables: "PACKET_TYPES init = PACKET_TYPES init"
    "PACKET_SUBTYPES init = PACKET_SUBTYPES init"
    by simp_all
  note main = load_independent_of_history
    [of parse_header_part F H "fst (load parse_header_part H 5 G)" 10 20,
     OF parse_header_part_tables_only tables]
  note other = load_independent_of_history
    [of parse_header_part F init init 10 10, OF parse_header_part_tables_only empty_tables]
  from main have "snd (load parse_header_part H 10 F) = parse_header_part H F"
    by blast
  with parse_F have first: "snd (load parse_header_part H 10 F) = Inr R"
    by simp
  from main have "snd (load parse_header_part H 10 F) =
      snd (load parse_header_part (fst (load parse_header_part H 5 G)) 20 F)"
    by blast
  with first have second:
    "snd (load parse_header_part (fst (load parse_header_part H 5 G)) 20 F) = Inr R"
    by simp
  from other have "snd (load parse_header_part init 10 F) = parse_header_part init F"
    by blast
  with parse_init have unlike: "snd (load parse_header_part init 10 F) \<noteq> Inr R"
    by (simp add: R_def)
  have state: "fst (load parse_header_part H 10 F) =
      H\<lparr>loaded_at := Some 10, raw := Some F, data := Some R\<rparr>"
    using first by (simp add: load_unfold split: sum.splits)
  from main have "load parse_header_part (fst (load parse_header_part H 10 F)) 20 F =
       ((fst (load parse_header_part H 10 F))\<lparr>loaded_at := Some 20\<rparr>,
        snd (load parse_header_part H 10 F))"
    by blast
  then have again:
    "load parse_header_part (fst (load parse_header_part H 10 F)) 20 F =
       (\<lparr>PACKET_TYPES = [(0x20, ''Security1'')],
         PACKET_SUBTYPES = [(0x01, ''X10 security motion'')],
         loaded_at = Some 20, raw = Some F, data = Some R\<rparr>, Inr R)"
    unfolding first unfolding state by (simp add: H_fields(3))
  from first second unlike again tables(1) prior_data show ?thesis
    unfolding H_def F_def G_def R_def by simp
qed

end
